theory Spec2Isabelle
  imports Complex_Main "HOL-Library.AList" "HOL-Library.Product_Lexorder"
begin

section \<open>Data model\<close>

text \<open>
  The Python sources compute with \<open>int\<close> (lattice indices) and \<open>float\<close> (lengths and
  coordinates). Indices are modelled as HOL integers, which are unbounded like Python's.
  Floats are idealised as real numbers: rounding, infinities and NaN are outside the model.
  Every exception the modelled code can raise is a value of the type \<open>error\<close>, and a
  function that can raise returns \<open>error + 'a\<close>.
\<close>

datatype error = TypeError | KeyError | ZeroDivisionError | IndexError | ValueError

type_synonym vec2 = "real \<times> real"
type_synonym site = "int \<times> int"
type_synonym edge = "site \<times> site"

text \<open>The dimension presets of \<open>visualization/styles.py\<close>, one record per dataclass.\<close>

record XmonDims =
  arm_len :: real
  arm_width :: real
  pad_head_size :: real

record JJChainDims =
  length_jj :: real
  width :: real
  island_len :: real
  gap :: real
  overlap :: real

record FluxoniumDims =
  xmon :: XmonDims
  chain :: JJChainDims
  chain_separation :: real
  chain_start_dist :: real
  chain_angle :: real
  connector_bar_extra :: real
  connector_bar_height :: real

record CouplerXmonDims =
  long_arm_len :: real
  short_arm_len :: real
  arm_width :: real
  pad_head_size :: real

record DCSqUIDDims =
  leg_length :: real
  leg_separation :: real
  leg_width :: real
  u_bar_width :: real
  junction_width :: real
  junction_height :: real

record ResonatorDims =
  lead_length :: real
  turn_radius :: real
  meander_amplitude :: real
  num_turns :: int
  width :: real

record FluxLineDims =
  length_fl :: real
  width :: real
  standoff :: real
  hook_radius :: real
  hook_width :: real

record TunableTransmonDims =
  xmon :: CouplerXmonDims
  dc_squid :: DCSqUIDDims
  resonator :: ResonatorDims
  flux_line :: FluxLineDims
  squid_arm_index :: int
  resonator_arm_index :: int

record LatticeConfig =
  rows :: int
  cols :: int
  pitch :: real
  pad_gap :: real

text \<open>The default instances, as the dataclass field defaults give them.\<close>

definition XmonDims_default :: XmonDims where
  "XmonDims_default =
     \<lparr>arm_len = 140, XmonDims.arm_width = 30, XmonDims.pad_head_size = 60\<rparr>"

definition JJChainDims_default :: JJChainDims where
  "JJChainDims_default =
     \<lparr>length_jj = 200, JJChainDims.width = 15, island_len = 20, gap = 15, overlap = 6\<rparr>"

definition FluxoniumDims_default :: FluxoniumDims where
  "FluxoniumDims_default =
     \<lparr>FluxoniumDims.xmon = XmonDims_default, chain = JJChainDims_default,
      chain_separation = 40, chain_start_dist = 15, chain_angle = - 45,
      connector_bar_extra = 6, connector_bar_height = 6\<rparr>"

definition CouplerXmonDims_default :: CouplerXmonDims where
  "CouplerXmonDims_default =
     \<lparr>long_arm_len = 100, short_arm_len = 50, CouplerXmonDims.arm_width = 24,
      CouplerXmonDims.pad_head_size = 45\<rparr>"

definition DCSqUIDDims_default :: DCSqUIDDims where
  "DCSqUIDDims_default =
     \<lparr>leg_length = 40, leg_separation = 20, leg_width = 3, u_bar_width = 3,
      junction_width = 10, junction_height = 8\<rparr>"

definition ResonatorDims_default :: ResonatorDims where
  "ResonatorDims_default =
     \<lparr>lead_length = 15, turn_radius = 8, meander_amplitude = 30, num_turns = 5,
      ResonatorDims.width = 3\<rparr>"

definition FluxLineDims_default :: FluxLineDims where
  "FluxLineDims_default =
     \<lparr>length_fl = 60, FluxLineDims.width = 3, standoff = 8, hook_radius = 6,
      hook_width = 5 / 2\<rparr>"

definition TunableTransmonDims_default :: TunableTransmonDims where
  "TunableTransmonDims_default =
     \<lparr>TunableTransmonDims.xmon = CouplerXmonDims_default, dc_squid = DCSqUIDDims_default,
      resonator = ResonatorDims_default, flux_line = FluxLineDims_default,
      squid_arm_index = 0, resonator_arm_index = 1\<rparr>"

definition LatticeConfig_default :: LatticeConfig where
  "LatticeConfig_default = \<lparr>rows = 3, cols = 3, pitch = 0, pad_gap = 20\<rparr>"

section \<open>Checkerboard cell logic (\<open>visualization/lattice.py\<close>)\<close>

text \<open>
  \<open>SquareLattice._cell_type\<close>. Python's \<open>%\<close> with a positive modulus returns a
  result in \<open>[0, 2)\<close> for negative operands too, as \<open>mod\<close> on \<open>int\<close> does.
\<close>

definition cell_type :: "int \<Rightarrow> int \<Rightarrow> string \<Rightarrow> string" where
  "cell_type r c first_cell =
     (if (r + c) mod 2 = 0 then first_cell
      else if first_cell = ''resonator'' then ''flux_line'' else ''resonator'')"

text \<open>
  \<open>SquareLattice._mirror_for_edge\<close>. The method reads only \<open>self.cfg.rows\<close> and
  \<open>self.cfg.cols\<close> of the lattice. A neighbour cell that does not exist is \<open>None\<close>;
  unpacking \<open>None\<close> in the call \<open>self._cell_type(*cell, first_cell)\<close> raises
  \<open>TypeError\<close>.
\<close>

definition cell_type_star :: "site option \<Rightarrow> string \<Rightarrow> error + string" where
  "cell_type_star cell first_cell =
     (case cell of None \<Rightarrow> Inl TypeError
      | Some (r, c) \<Rightarrow> Inr (cell_type r c first_cell))"

definition mirror_for_edge :: "LatticeConfig \<Rightarrow> edge \<Rightarrow> string \<Rightarrow> string \<Rightarrow> error + bool" where
  "mirror_for_edge cfg edge_key direction first_cell =
     (case edge_key of ((r1, c1), (r2, c2)) \<Rightarrow>
        if direction = ''horizontal'' then
          (let r = r1; c = c1;
               cell_above = (if r < rows cfg - 1 then Some (r, c) else None);
               cell_below = (if r > 0 then Some (r - 1, c) else None)
           in if cell_above \<noteq> None
              then (case cell_type_star cell_above first_cell of
                      Inl e \<Rightarrow> Inl e | Inr t \<Rightarrow> Inr (t = ''resonator''))
              else (case cell_type_star cell_below first_cell of
                      Inl e \<Rightarrow> Inl e | Inr t \<Rightarrow> Inr (t \<noteq> ''resonator'')))
        else
          (let r = r1; c = c1;
               cell_right = (if c < cols cfg - 1 then Some (r, c) else None);
               cell_left = (if c > 0 then Some (r, c - 1) else None)
           in if cell_right \<noteq> None
              then (case cell_type_star cell_right first_cell of
                      Inl e \<Rightarrow> Inl e | Inr t \<Rightarrow> Inr (t \<noteq> ''resonator''))
              else (case cell_type_star cell_left first_cell of
                      Inl e \<Rightarrow> Inl e | Inr t \<Rightarrow> Inr (t = ''resonator''))))"

section \<open>Josephson-junction chain (\<open>visualization/primitives.py\<close>)\<close>

text \<open>
  Python's \<open>int(x)\<close> on a float truncates towards zero, and \<open>range(n)\<close> is empty for
  \<open>n \<le> 0\<close>.
\<close>

definition py_int :: "real \<Rightarrow> int" where
  "py_int x = (if 0 \<le> x then \<lfloor>x\<rfloor> else \<lceil>x\<rceil>)"

definition py_range :: "int \<Rightarrow> int list" where
  "py_range n = map int [0..<nat n]"

text \<open>A rectangle is the tuple \<open>(x, y, w, h)\<close> the source appends.\<close>

type_synonym rect = "real \<times> real \<times> real \<times> real"

record JJChain =
  dims :: JJChainDims
  islands :: "rect list"
  bridges :: "rect list"
  total_length :: real

text \<open>
  One iteration of the loop of \<open>JJChain._generate\<close>, on the loop state
  \<open>(x, _islands, _bridges)\<close>.
\<close>

definition generate_step ::
  "JJChainDims \<Rightarrow> int \<Rightarrow> int \<Rightarrow> real \<times> rect list \<times> rect list
     \<Rightarrow> real \<times> rect list \<times> rect list" where
  "generate_step d n_cells i st =
     (case st of (x, isls, brs) \<Rightarrow>
        let unit = island_len d + gap d;
            bridge_len = gap d + 2 * overlap d;
            isls' = isls @ [(x, - JJChainDims.width d / 2, island_len d, JJChainDims.width d)];
            brs' = (if i < n_cells
                   then (let bx = x + island_len d - overlap d;
                             bw = JJChainDims.width d * (85 / 100)
                         in brs @ [(bx, - bw / 2, bridge_len, bw)])
                   else brs)
        in (x + unit, isls', brs'))"

text \<open>
  \<open>JJChain.__init__\<close> followed by \<open>_generate\<close>. The float division
  \<open>d.length / unit\<close> raises \<open>ZeroDivisionError\<close> when \<open>unit\<close> is zero.
\<close>

definition JJChain_init :: "JJChainDims \<Rightarrow> error + JJChain" where
  "JJChain_init d =
     (let unit = island_len d + gap d
      in if unit = 0 then Inl ZeroDivisionError
         else (let n_cells = py_int (length_jj d / unit)
               in case fold (generate_step d n_cells) (py_range (n_cells + 1)) (0, [], []) of
                    (x, isls, brs) \<Rightarrow>
                      Inr \<lparr>dims = d, islands = isls, bridges = brs,
                           total_length = x - unit + island_len d\<rparr>))"



section \<open>Dolan bridge profile (\<open>visualization_3d/primitives.py\<close>)\<close>


text \<open>
  The local function \<open>sigmoid_z\<close> of \<open>create_dolan_bridge\<close>, with the variables it
  closes over as parameters (\<open>total_len\<close> and \<open>width_y\<close> are the source's
  \<open>total_length\<close> and \<open>width\<close>). Both denominators are at least 1, so no division fails.
  \<open>math.exp\<close> raises \<open>OverflowError\<close> on arguments above about 709.78; like every
  effect of the float range this is outside the model.
\<close>

definition sigmoid_z :: "real \<Rightarrow> real \<Rightarrow> real \<Rightarrow> real \<Rightarrow> real \<Rightarrow> real" where
  "sigmoid_z total_len h_step overlap_len steepness x =
     (let left_step = - total_len / 2 + overlap_len;
          right_step = total_len / 2 - overlap_len;
          s_left = 1 / (1 + exp (steepness * (x - left_step)));
          s_right = 1 / (1 + exp (- steepness * (x - right_step)))
      in h_step * (s_left + s_right))"




text \<open>The logistic function, and the bottom height as the specification words it.\<close>

definition sigmoid :: "real \<Rightarrow> real" where
  "sigmoid t = 1 / (1 + exp (- t))"


section \<open>Component objects built by the lattice (\<open>primitives.py\<close>, \<open>qubits.py\<close>)\<close>

text \<open>
  A Python \<open>dict\<close> is an association list with distinct keys in insertion order:
  assignment replaces the value of a present key in place and appends a new key, and a
  subscript on a missing key raises \<open>KeyError\<close>.
\<close>

definition dict_set :: "'k \<Rightarrow> 'v \<Rightarrow> ('k \<times> 'v) list \<Rightarrow> ('k \<times> 'v) list" where
  "dict_set k v d = AList.update k v d"

definition dict_get :: "('k \<times> 'v) list \<Rightarrow> 'k \<Rightarrow> error + 'v" where
  "dict_get d k = (case map_of d k of None \<Rightarrow> Inl KeyError | Some v \<Rightarrow> Inr v)"

text \<open>A \<open>for\<close> loop whose body may raise: the first error ends the loop.\<close>

fun for_each :: "'a list \<Rightarrow> ('a \<Rightarrow> 's \<Rightarrow> error + 's) \<Rightarrow> 's \<Rightarrow> error + 's" where
  "for_each [] body s = Inr s"
| "for_each (x # xs) body s =
     (case body x s of Inl e \<Rightarrow> Inl e | Inr s' \<Rightarrow> for_each xs body s')"

text \<open>
  \<open>Xmon.__init__\<close> and \<open>Xmon._generate\<close>. The \<open>dims\<close> argument is either an
  \<open>XmonDims\<close> or a \<open>CouplerXmonDims\<close>; the source tells them apart with \<open>getattr\<close>.
  A patch is a rectangle with its local angle.
\<close>

record Xmon =
  dims :: "XmonDims + CouplerXmonDims"
  arm_width :: real
  pad_head_size :: real
  arm_lengths :: "(int \<times> real) list"
  patches :: "(rect \<times> real) list"

definition Xmon_arm_patches ::
  "real \<Rightarrow> real \<Rightarrow> (int \<times> real) list \<Rightarrow> int \<Rightarrow> (rect \<times> real) list
     \<Rightarrow> error + (rect \<times> real) list" where
  "Xmon_arm_patches aw phs lens angle ps =
     (case dict_get lens angle of
        Inl e \<Rightarrow> Inl e
      | Inr arm_l \<Rightarrow>
          (let c = aw / 2;
               pad_x = c + arm_l;
               pad_w = phs / (3 / 2);
               pad_h = phs
           in Inr (ps @ [((c, - c, arm_l, aw), of_int angle),
                         ((pad_x, - pad_h / 2, pad_w, pad_h), of_int angle)])))"

definition Xmon_init ::
  "XmonDims + CouplerXmonDims \<Rightarrow> (int \<times> real) list option \<Rightarrow> error + Xmon" where
  "Xmon_init d arm_lengths_arg =
     (let aw = (case d of Inl x \<Rightarrow> XmonDims.arm_width x | Inr x \<Rightarrow> CouplerXmonDims.arm_width x);
          phs = (case d of Inl x \<Rightarrow> XmonDims.pad_head_size x
                 | Inr x \<Rightarrow> CouplerXmonDims.pad_head_size x);
          lens = (case arm_lengths_arg of
                    Some al \<Rightarrow> al
                  | None \<Rightarrow>
                      (case d of
                         Inr x \<Rightarrow> [(0, long_arm_len x), (180, long_arm_len x),
                                   (90, short_arm_len x), (270, short_arm_len x)]
                       | Inl x \<Rightarrow> map (\<lambda>a. (a, arm_len x)) [0, 90, 180, 270]));
          c = aw / 2
      in case for_each [0, 90, 180, 270] (Xmon_arm_patches aw phs lens) [((- c, - c, aw, aw), 0)] of
           Inl e \<Rightarrow> Inl e
         | Inr ps \<Rightarrow>
             Inr \<lparr>Xmon.dims = d, arm_width = aw, pad_head_size = phs, arm_lengths = lens,
                  patches = ps\<rparr>)"

text \<open>\<open>FluxoniumQubit.__init__\<close>; the junction marker is built with width 6 and height 10.\<close>

record FluxoniumQubit =
  dims :: FluxoniumDims
  xmon :: Xmon
  chain :: JJChain
  jj :: "real \<times> real"

definition FluxoniumQubit_init :: "FluxoniumDims option \<Rightarrow> error + FluxoniumQubit" where
  "FluxoniumQubit_init dims_arg =
     (let d = (case dims_arg of None \<Rightarrow> FluxoniumDims_default | Some x \<Rightarrow> x)
      in case Xmon_init (Inl (FluxoniumDims.xmon d)) None of
           Inl e \<Rightarrow> Inl e
         | Inr xm \<Rightarrow>
             (case JJChain_init (FluxoniumDims.chain d) of
                Inl e \<Rightarrow> Inl e
              | Inr ch \<Rightarrow>
                  Inr \<lparr>FluxoniumQubit.dims = d, xmon = xm, chain = ch, jj = (6, 10)\<rparr>))"

text \<open>
  \<open>TunableTransmonCoupler.__init__\<close>. The SQUID, resonator and flux-line objects only
  store their dimension records. The class constant \<open>_SHORT_ARM_ANGLES\<close> maps the
  logical short-arm index to an angle.
\<close>

definition SHORT_ARM_ANGLES :: "(int \<times> int) list" where
  "SHORT_ARM_ANGLES = [(0, 90), (1, 270)]"

record TunableTransmonCoupler =
  dims :: TunableTransmonDims
  xmon :: Xmon
  squid :: DCSqUIDDims
  resonator :: ResonatorDims
  flux_line :: FluxLineDims
  squid_angle :: int
  res_angle :: int

definition TunableTransmonCoupler_init ::
  "TunableTransmonDims option \<Rightarrow> error + TunableTransmonCoupler" where
  "TunableTransmonCoupler_init dims_arg =
     (let d = (case dims_arg of None \<Rightarrow> TunableTransmonDims_default | Some x \<Rightarrow> x)
      in case Xmon_init (Inr (TunableTransmonDims.xmon d)) None of
           Inl e \<Rightarrow> Inl e
         | Inr xm \<Rightarrow>
             (case dict_get SHORT_ARM_ANGLES (squid_arm_index d) of
                Inl e \<Rightarrow> Inl e
              | Inr sa \<Rightarrow>
                  (case dict_get SHORT_ARM_ANGLES (resonator_arm_index d) of
                     Inl e \<Rightarrow> Inl e
                   | Inr ra \<Rightarrow>
                       Inr \<lparr>TunableTransmonCoupler.dims = d, xmon = xm,
                            squid = TunableTransmonDims.dc_squid d,
                            resonator = TunableTransmonDims.resonator d,
                            flux_line = TunableTransmonDims.flux_line d,
                            squid_angle = sa, res_angle = ra\<rparr>)))"

section \<open>Square lattice (\<open>visualization/lattice.py\<close>)\<close>

text \<open>
  The value stored for an edge is the dictionary \<open>{"xy": pos, "direction": d}\<close>; a
  position is a two-element array.
\<close>

record edge_info =
  xy :: vec2
  direction :: string

definition midpoint2 :: "vec2 \<Rightarrow> vec2 \<Rightarrow> vec2" where
  "midpoint2 a b = ((fst a + fst b) / 2, (snd a + snd b) / 2)"

record SquareLattice =
  cfg :: LatticeConfig
  fluxonium_dims :: FluxoniumDims
  coupler_dims :: TunableTransmonDims
  data_qubit :: FluxoniumQubit
  coupler :: TunableTransmonCoupler
  site_positions :: "(site \<times> vec2) list"
  edge_positions :: "(edge \<times> edge_info) list"

text \<open>\<open>SquareLattice._compute_min_pitch\<close>.\<close>

definition compute_min_pitch ::
  "LatticeConfig \<Rightarrow> FluxoniumDims \<Rightarrow> TunableTransmonDims \<Rightarrow> real" where
  "compute_min_pitch c fd cd =
     (let fx = FluxoniumDims.xmon fd;
          fx_tip = XmonDims.arm_width fx / 2 + arm_len fx + XmonDims.pad_head_size fx / (3 / 2);
          tx = TunableTransmonDims.xmon cd;
          tx_tip = CouplerXmonDims.arm_width tx / 2 + long_arm_len tx
                     + CouplerXmonDims.pad_head_size tx / (3 / 2)
      in 2 * (fx_tip + tx_tip + pad_gap c))"

text \<open>
  \<open>SquareLattice._build_positions\<close>: the three nested loops, on the two dictionaries
  (both empty when the method is called).
\<close>

definition build_sites :: "real \<Rightarrow> int \<Rightarrow> int \<Rightarrow> (site \<times> vec2) list \<Rightarrow> (site \<times> vec2) list" where
  "build_sites p n_rows n_cols sp =
     fold (\<lambda>r. fold (\<lambda>c. dict_set (r, c) (of_int c * p, of_int r * p)) (py_range n_cols))
       (py_range n_rows) sp"

definition horizontal_edge ::
  "(site \<times> vec2) list \<Rightarrow> int \<Rightarrow> int \<Rightarrow> (edge \<times> edge_info) list
     \<Rightarrow> error + (edge \<times> edge_info) list" where
  "horizontal_edge sp r c ep =
     (case dict_get sp (r, c) of
        Inl e \<Rightarrow> Inl e
      | Inr a \<Rightarrow>
          (case dict_get sp (r, c + 1) of
             Inl e \<Rightarrow> Inl e
           | Inr b \<Rightarrow>
               Inr (dict_set ((r, c), (r, c + 1))
                      \<lparr>xy = midpoint2 a b, direction = ''horizontal''\<rparr> ep)))"

definition vertical_edge ::
  "(site \<times> vec2) list \<Rightarrow> int \<Rightarrow> int \<Rightarrow> (edge \<times> edge_info) list
     \<Rightarrow> error + (edge \<times> edge_info) list" where
  "vertical_edge sp r c ep =
     (case dict_get sp (r, c) of
        Inl e \<Rightarrow> Inl e
      | Inr a \<Rightarrow>
          (case dict_get sp (r + 1, c) of
             Inl e \<Rightarrow> Inl e
           | Inr b \<Rightarrow>
               Inr (dict_set ((r, c), (r + 1, c))
                      \<lparr>xy = midpoint2 a b, direction = ''vertical''\<rparr> ep)))"

definition build_positions ::
  "LatticeConfig \<Rightarrow> error + (site \<times> vec2) list \<times> (edge \<times> edge_info) list" where
  "build_positions c =
     (let p = pitch c;
          sp = build_sites p (rows c) (cols c) []
      in case for_each (py_range (rows c))
                (\<lambda>r. for_each (py_range (cols c - 1)) (horizontal_edge sp r)) [] of
           Inl e \<Rightarrow> Inl e
         | Inr ep1 \<Rightarrow>
             (case for_each (py_range (rows c - 1))
                     (\<lambda>r. for_each (py_range (cols c)) (vertical_edge sp r)) ep1 of
                Inl e \<Rightarrow> Inl e
              | Inr ep2 \<Rightarrow> Inr (sp, ep2)))"

text \<open>
  \<open>SquareLattice.__init__\<close>. A missing argument is \<open>None\<close>. A pitch that is not
  positive is replaced by the computed minimum pitch before anything else is built.
\<close>

definition SquareLattice_init ::
  "LatticeConfig option \<Rightarrow> FluxoniumDims option \<Rightarrow> TunableTransmonDims option
     \<Rightarrow> error + SquareLattice" where
  "SquareLattice_init config fluxonium_dims_arg coupler_dims_arg =
     (let c0 = (case config of None \<Rightarrow> LatticeConfig_default | Some x \<Rightarrow> x);
          fd = (case fluxonium_dims_arg of None \<Rightarrow> FluxoniumDims_default | Some x \<Rightarrow> x);
          cd = (case coupler_dims_arg of None \<Rightarrow> TunableTransmonDims_default | Some x \<Rightarrow> x);
          c1 = (if pitch c0 \<le> 0 then c0\<lparr>pitch := compute_min_pitch c0 fd cd\<rparr> else c0)
      in case FluxoniumQubit_init (Some fd) of
           Inl e \<Rightarrow> Inl e
         | Inr dq \<Rightarrow>
             (case TunableTransmonCoupler_init (Some cd) of
                Inl e \<Rightarrow> Inl e
              | Inr cp \<Rightarrow>
                  (case build_positions c1 of
                     Inl e \<Rightarrow> Inl e
                   | Inr (sp, ep) \<Rightarrow>
                       Inr \<lparr>cfg = c1, fluxonium_dims = fd, coupler_dims = cd,
                            data_qubit = dq, coupler = cp,
                            site_positions = sp, edge_positions = ep\<rparr>)))"

text \<open>
  \<open>_edge_angle\<close>: a subscript on a two-entry dictionary.
\<close>

definition edge_angle :: "string \<Rightarrow> error + real" where
  "edge_angle d = dict_get [(''horizontal'', 0), (''vertical'', 90)] d"

text \<open>
  The drawing surface \<open>ax\<close> is the list of what has been stamped on it. The \<open>place\<close>
  methods of the data qubit and of the coupler stamp matplotlib patches; each call is
  recorded as one command with the arguments the lattice passes. A text label is recorded
  with its prefix and its index.
\<close>

datatype draw_cmd =
    CellShade vec2 real real string real
  | DataQubitAt vec2
  | CouplerAt vec2 real bool
  | TextAt vec2 string nat real

text \<open>\<open>SquareLattice._draw_cell_shading\<close>.\<close>

definition draw_cell_shading ::
  "SquareLattice \<Rightarrow> draw_cmd list \<Rightarrow> vec2 \<Rightarrow> string \<Rightarrow> real \<Rightarrow> draw_cmd list" where
  "draw_cell_shading self ax origin first_cell alpha =
     (let ox = fst origin; oy = snd origin;
          p = pitch (cfg self);
          half = p * (46 / 100);
          res_color = ''#d0e0ff'';
          flux_color = ''#ffe0d0''
      in fold (\<lambda>r. fold (\<lambda>c ax'.
                 let cx = of_int c * p + p / 2 + ox;
                     cy = of_int r * p + p / 2 + oy;
                     ct = cell_type r c first_cell;
                     color = (if ct = ''resonator'' then res_color else flux_color)
                 in ax' @ [CellShade (cx - half, cy - half) (2 * half) (2 * half) color alpha])
               (py_range (cols (cfg self) - 1)))
           (py_range (rows (cfg self) - 1)) ax)"

text \<open>
  The bodies of the two loops of \<open>SquareLattice.place\<close>, over the enumerated, sorted
  items of the site and edge dictionaries. The keys of a dictionary are distinct, so
  sorting the items compares keys only; tuples are ordered lexicographically.
\<close>

definition place_site ::
  "real \<Rightarrow> real \<Rightarrow> bool \<Rightarrow> real \<Rightarrow> nat \<times> site \<times> vec2 \<Rightarrow> draw_cmd list \<Rightarrow> draw_cmd list" where
  "place_site ox oy labels label_fontsize item ax =
     (case item of (idx, (k, pos)) \<Rightarrow>
        let gx = fst pos + ox; gy = snd pos + oy;
            ax' = ax @ [DataQubitAt (gx, gy)]
        in if labels then ax' @ [TextAt (gx, gy - 40) ''D'' idx label_fontsize] else ax')"

definition place_edge ::
  "SquareLattice \<Rightarrow> real \<Rightarrow> real \<Rightarrow> bool \<Rightarrow> real \<Rightarrow> string option \<Rightarrow> string
     \<Rightarrow> nat \<times> edge \<times> edge_info \<Rightarrow> draw_cmd list \<Rightarrow> error + draw_cmd list" where
  "place_edge self ox oy labels label_fontsize cell_pattern first_cell item ax =
     (case item of (idx, (edge_key, info)) \<Rightarrow>
        let pos = xy info;
            gx = fst pos + ox; gy = snd pos + oy
        in case edge_angle (direction info) of
             Inl e \<Rightarrow> Inl e
           | Inr coupler_angle \<Rightarrow>
               (case (if cell_pattern = Some ''checkerboard''
                      then mirror_for_edge (cfg self) edge_key (direction info) first_cell
                      else Inr False) of
                  Inl e \<Rightarrow> Inl e
                | Inr mirror \<Rightarrow>
                    (let ax' = ax @ [CouplerAt (gx, gy) coupler_angle mirror]
                     in Inr (if labels
                             then ax' @ [TextAt (gx, gy - 30) ''C'' idx (label_fontsize - 1)]
                             else ax'))))"

text \<open>\<open>SquareLattice.place\<close>; \<open>cell_pattern\<close> is a string or \<open>None\<close>.\<close>

definition place ::
  "SquareLattice \<Rightarrow> draw_cmd list \<Rightarrow> vec2 \<Rightarrow> bool \<Rightarrow> real \<Rightarrow> string option \<Rightarrow> string
     \<Rightarrow> bool \<Rightarrow> real \<Rightarrow> error + draw_cmd list" where
  "place self ax origin labels label_fontsize cell_pattern first_cell shade_cells shade_alpha =
     (let ox = fst origin; oy = snd origin;
          ax1 = (if shade_cells \<and> cell_pattern = Some ''checkerboard''
                 then draw_cell_shading self ax origin first_cell shade_alpha else ax);
          ax2 = fold (place_site ox oy labels label_fontsize)
                  (enumerate 0 (sort_key fst (site_positions self))) ax1
      in for_each (enumerate 0 (sort_key fst (edge_positions self)))
           (place_edge self ox oy labels label_fontsize cell_pattern first_cell) ax2)"

text \<open>
  Closed forms used to state what \<open>_build_positions\<close> computes: the position of a site,
  the key and the value of the horizontal and of the vertical edge that start at a site,
  and the sites at which such edges start.
\<close>

definition site_pos :: "real \<Rightarrow> site \<Rightarrow> vec2" where
  "site_pos p k = (of_int (snd k) * p, of_int (fst k) * p)"

definition h_key :: "site \<Rightarrow> edge" where
  "h_key k = (k, (fst k, snd k + 1))"

definition v_key :: "site \<Rightarrow> edge" where
  "v_key k = (k, (fst k + 1, snd k))"

definition h_info :: "real \<Rightarrow> site \<Rightarrow> edge_info" where
  "h_info p k = \<lparr>xy = midpoint2 (site_pos p k) (site_pos p (fst k, snd k + 1)),
                 direction = ''horizontal''\<rparr>"

definition v_info :: "real \<Rightarrow> site \<Rightarrow> edge_info" where
  "v_info p k = \<lparr>xy = midpoint2 (site_pos p k) (site_pos p (fst k + 1, snd k)),
                 direction = ''vertical''\<rparr>"

definition h_sites :: "int \<Rightarrow> int \<Rightarrow> site list" where
  "h_sites R C = List.product (py_range R) (py_range (C - 1))"

definition v_sites :: "int \<Rightarrow> int \<Rightarrow> site list" where
  "v_sites R C = List.product (py_range (R - 1)) (py_range C)"

section \<open>Path tangents and normals (\<open>visualization_3d/primitives.py\<close>, \<open>visualization/primitives.py\<close>)\<close>













section \<open>Checkerboard properties\<close>

text \<open>
  Claim C5. For every integer pair \<open>(r, c)\<close> and both choices of \<open>first_cell\<close>,
  \<open>_cell_type\<close> returns \<open>first_cell\<close> when \<open>r + c\<close> is even and the other type when
  \<open>r + c\<close> is odd; hence cells that are adjacent along a row or along a column always
  differ in type.
\<close>

theorem cell_type_checkerboard:
  assumes "first_cell = ''resonator'' \<or> first_cell = ''flux_line''"
  shows "cell_type r c first_cell =
           (if even (r + c) then first_cell
            else if first_cell = ''resonator'' then ''flux_line'' else ''resonator'')
         \<and> cell_type r c first_cell \<noteq> cell_type r (c + 1) first_cell
         \<and> cell_type r c first_cell \<noteq> cell_type (r + 1) c first_cell"
proof -
  have shift: "(r + (c + 1)) mod 2 = 0 \<longleftrightarrow> (r + c) mod 2 \<noteq> 0"
              "(r + 1 + c) mod 2 = 0 \<longleftrightarrow> (r + c) mod 2 \<noteq> 0"
    by presburger+
  have ev: "even (r + c) \<longleftrightarrow> (r + c) mod 2 = 0"
    by presburger
  from assms show ?thesis
    unfolding cell_type_def shift ev by auto
qed

theorem cell_type_checkerboard_witness:
  "cell_type 2 3 ''flux_line'' = ''resonator''
   \<and> cell_type 2 3 ''flux_line'' \<noteq> cell_type 2 (3 + 1) ''flux_line''
   \<and> cell_type 2 3 ''flux_line'' \<noteq> cell_type (2 + 1) 3 ''flux_line''"
proof -
  have h: "''flux_line'' = ''resonator'' \<or> ''flux_line'' = ''flux_line''"
    by simp
  have odd: "\<not> even (2 + 3 :: int)"
    by simp
  from cell_type_checkerboard [OF h, of 2 3] odd show ?thesis
    by auto
qed

section \<open>Coupler mirror rule\<close>





lemma mirror_horizontal_no_cell:
  "\<not> r < rows lc - 1 \<Longrightarrow> \<not> 0 < r \<Longrightarrow>
   mirror_for_edge lc ((r, c), k) ''horizontal'' first_cell = Inl TypeError"
  by (cases k) (simp add: mirror_for_edge_def cell_type_star_def)



lemma mirror_vertical_no_cell:
  "\<not> c < cols lc - 1 \<Longrightarrow> \<not> 0 < c \<Longrightarrow>
   mirror_for_edge lc ((r, c), k) ''vertical'' first_cell = Inl TypeError"
  by (cases k) (simp add: mirror_for_edge_def cell_type_star_def)



section \<open>Josephson-junction chain: counts, positions and built length\<close>












section \<open>Dolan bridge: the sigmoid profile\<close>

lemma sigmoid_z_alt:
  "sigmoid_z L h ov s x =
     h * (sigmoid (- s * (x - (- L / 2 + ov))) + sigmoid (s * (x - (L / 2 - ov))))"
  by (simp add: sigmoid_z_def sigmoid_def Let_def)

lemma inv_one_plus_exp_le: "1 / (1 + exp (t::real)) \<le> exp (- t)"
proof -
  have "exp t \<le> 1 + exp t" by simp
  then have "1 / (1 + exp t) \<le> 1 / exp t"
    by (intro divide_left_mono) (simp_all add: add_pos_pos)
  then show ?thesis by (simp add: exp_minus inverse_eq_divide)
qed

lemma one_minus_inv_one_plus_exp: "1 - 1 / (1 + exp (t::real)) = 1 / (1 + exp (- t))"
proof -
  have p: "0 < 1 + exp t" "0 < 1 + exp (- t)" by (simp_all add: add_pos_pos)
  have "exp t * exp (- t) = 1" by (simp add: exp_minus)
  then show ?thesis using p
    by (simp add: field_simps)
qed

lemma sigmoid_bounds: "0 < sigmoid t" "sigmoid t < 1" "sigmoid t \<le> exp t" "1 - sigmoid t = sigmoid (- t)" "1 - sigmoid t \<le> exp (- t)"
proof -
  show "0 < sigmoid t" by (simp add: sigmoid_def add_pos_pos)
  show "sigmoid t < 1" by (simp add: sigmoid_def add_pos_pos)
  show "sigmoid t \<le> exp t" using inv_one_plus_exp_le [of "- t"] by (simp add: sigmoid_def)
  show e: "1 - sigmoid t = sigmoid (- t)" using one_minus_inv_one_plus_exp [of "- t"] by (simp add: sigmoid_def)
  show "1 - sigmoid t \<le> exp (- t)" unfolding e using inv_one_plus_exp_le [of t] by (simp add: sigmoid_def)
qed



lemma sigmoid_z_near_left:
  "\<bar>sigmoid_z L h ov s x - h\<bar>
     \<le> \<bar>h\<bar> * (exp (s * (x - (- L / 2 + ov))) + exp (s * (x - (L / 2 - ov))))"
proof -
  define a where "a = s * (x - (- L / 2 + ov))"
  define b where "b = s * (x - (L / 2 - ov))"
  have z: "sigmoid_z L h ov s x = h * (sigmoid (- a) + sigmoid b)"
    by (simp add: sigmoid_z_alt a_def b_def)
  have "sigmoid_z L h ov s x - h = h * (sigmoid b - (1 - sigmoid (- a)))"
    unfolding z by (simp add: algebra_simps)
  also have "\<dots> = h * (sigmoid b - sigmoid a)"
    by (simp add: sigmoid_bounds(4))
  finally have "\<bar>sigmoid_z L h ov s x - h\<bar> = \<bar>h\<bar> * \<bar>sigmoid b - sigmoid a\<bar>"
    by (simp add: abs_mult)
  moreover have "\<bar>sigmoid b - sigmoid a\<bar> \<le> exp a + exp b"
    using sigmoid_bounds(1,3) [of a] sigmoid_bounds(1,3) [of b] by linarith
  ultimately show ?thesis
    unfolding a_def b_def by (simp add: mult_left_mono)
qed

lemma sigmoid_z_near_right:
  "\<bar>sigmoid_z L h ov s x - h\<bar>
     \<le> \<bar>h\<bar> * (exp (- s * (x - (- L / 2 + ov))) + exp (- s * (x - (L / 2 - ov))))"
proof -
  define a where "a = s * (x - (- L / 2 + ov))"
  define b where "b = s * (x - (L / 2 - ov))"
  have z: "sigmoid_z L h ov s x = h * (sigmoid (- a) + sigmoid b)"
    by (simp add: sigmoid_z_alt a_def b_def)
  have "sigmoid_z L h ov s x - h = h * (sigmoid (- a) - (1 - sigmoid b))"
    unfolding z by (simp add: algebra_simps)
  also have "\<dots> = h * (sigmoid (- a) - sigmoid (- b))"
    by (simp add: sigmoid_bounds(4))
  finally have "\<bar>sigmoid_z L h ov s x - h\<bar> = \<bar>h\<bar> * \<bar>sigmoid (- a) - sigmoid (- b)\<bar>"
    by (simp add: abs_mult)
  moreover have "\<bar>sigmoid (- a) - sigmoid (- b)\<bar> \<le> exp (- a) + exp (- b)"
    using sigmoid_bounds(1,3) [of "- a"] sigmoid_bounds(1,3) [of "- b"] by linarith
  ultimately show ?thesis
    unfolding a_def b_def by (simp add: mult_left_mono)
qed

lemma sigmoid_z_middle:
  "\<bar>sigmoid_z L h ov s x\<bar>
     \<le> \<bar>h\<bar> * (exp (- s * (x - (- L / 2 + ov))) + exp (s * (x - (L / 2 - ov))))"
proof -
  define a where "a = s * (x - (- L / 2 + ov))"
  define b where "b = s * (x - (L / 2 - ov))"
  have z: "sigmoid_z L h ov s x = h * (sigmoid (- a) + sigmoid b)"
    by (simp add: sigmoid_z_alt a_def b_def)
  have "\<bar>sigmoid_z L h ov s x\<bar> = \<bar>h\<bar> * \<bar>sigmoid (- a) + sigmoid b\<bar>"
    unfolding z by (simp add: abs_mult)
  moreover have "\<bar>sigmoid (- a) + sigmoid b\<bar> \<le> exp (- a) + exp b"
    using sigmoid_bounds(1,3) [of "- a"] sigmoid_bounds(1,3) [of b] by linarith
  ultimately show ?thesis
    unfolding a_def b_def by (simp add: mult_left_mono)
qed

lemma exp_3_gt_20: "20 < exp (3::real)"
proof -
  have "(2249 / 2048 :: real) \<le> exp (3 / 32)"
    using exp_lower_Taylor_quadratic [of "3 / 32 :: real"] by (simp add: power2_eq_square)
  then have "(2249 / 2048 :: real) ^ 32 \<le> exp (3 / 32) ^ 32"
    by (intro power_mono) simp_all
  also have "exp (3 / 32 :: real) ^ 32 = exp 3"
    using exp_of_nat_mult [of 32 "3 / 32 :: real"] by simp
  finally have "(2249 / 2048 :: real) ^ 32 \<le> exp 3" .
  moreover have "(20 :: real) < (2249 / 2048) ^ 32"
    by (simp add: power_divide)
  ultimately show ?thesis by linarith
qed

lemma exp_17_gt: "6 * 10 ^ 6 < exp (17::real)"
proof -
  have "(13 / 8 :: real) \<le> exp (1 / 2)"
    using exp_lower_Taylor_quadratic [of "1 / 2 :: real"] by (simp add: power2_eq_square)
  then have "(13 / 8 :: real) ^ 34 \<le> exp (1 / 2) ^ 34"
    by (intro power_mono) simp_all
  also have "exp (1 / 2 :: real) ^ 34 = exp 17"
    using exp_of_nat_mult [of 34 "1 / 2 :: real"] by simp
  finally have "(13 / 8 :: real) ^ 34 \<le> exp 17" .
  moreover have "(6 * 10 ^ 6 :: real) < (13 / 8) ^ 34"
    by (simp add: power_divide)
  ultimately show ?thesis by linarith
qed

lemma sigmoid_neg3: "0 < sigmoid (- 3)" "sigmoid (- 3) < 1 / 21"
proof -
  show "0 < sigmoid (- 3)" by (rule sigmoid_bounds)
  have "21 < 1 + exp (3::real)" using exp_3_gt_20 by simp
  then have "1 / (1 + exp (3::real)) < 1 / 21"
    by (intro divide_strict_left_mono) simp_all
  then show "sigmoid (- 3) < 1 / 21" by (simp add: sigmoid_def)
qed

lemma sigmoid_neg37: "0 < sigmoid (- 37)" "sigmoid (- 37) < 1 / 21"
proof -
  show "0 < sigmoid (- 37)" by (rule sigmoid_bounds)
  have "exp (3::real) \<le> exp 37" by simp
  then have "21 < 1 + exp (37::real)" using exp_3_gt_20 by linarith
  then have "1 / (1 + exp (37::real)) < 1 / 21"
    by (intro divide_strict_left_mono) simp_all
  then show "sigmoid (- 37) < 1 / 21" by (simp add: sigmoid_def)
qed

lemma sigmoid_neg17: "0 < sigmoid (- 17)" "sigmoid (- 17) < 1 / (6 * 10 ^ 6)"
proof -
  show "0 < sigmoid (- 17)" by (rule sigmoid_bounds)
  have "6 * 10 ^ 6 < 1 + exp (17::real)" using exp_17_gt by linarith
  then have "1 / (1 + exp (17::real)) < 1 / (6 * 10 ^ 6)"
    by (intro divide_strict_left_mono) simp_all
  then show "sigmoid (- 17) < 1 / (6 * 10 ^ 6)" by (simp add: sigmoid_def)
qed

text \<open>
  Claim C6. With \<open>h_step = 3\<close>, \<open>steepness = 2\<close>, \<open>overlap_len = 1.5\<close> and
  \<open>total_length = 20\<close> the bottom height is within 0.15 of 3 at \<open>x = -10\<close> and at
  \<open>x = 10\<close> and within one millionth of 0 at \<open>x = 0\<close>. For any steepness \<open>s\<close> the
  distance from 3 at both ends is at most \<open>3 (exp (-1.5 s) + exp (-18.5 s))\<close> and the
  distance from 0 in the middle is at most \<open>6 exp (-8.5 s)\<close>: the tolerance decays with
  the steepness.
\<close>

theorem dolan_bridge_endpoint_values:
  "\<bar>sigmoid_z 20 3 (3 / 2) 2 (- 10) - 3\<bar> < 3 / 20
   \<and> \<bar>sigmoid_z 20 3 (3 / 2) 2 10 - 3\<bar> < 3 / 20
   \<and> \<bar>sigmoid_z 20 3 (3 / 2) 2 0\<bar> < 1 / 10 ^ 6
   \<and> (\<forall>s. \<bar>sigmoid_z 20 3 (3 / 2) s (- 10) - 3\<bar> \<le> 3 * (exp (- (3 / 2) * s) + exp (- (37 / 2) * s)))
   \<and> (\<forall>s. \<bar>sigmoid_z 20 3 (3 / 2) s 10 - 3\<bar> \<le> 3 * (exp (- (3 / 2) * s) + exp (- (37 / 2) * s)))
   \<and> (\<forall>s. \<bar>sigmoid_z 20 3 (3 / 2) s 0\<bar> \<le> 6 * exp (- (17 / 2) * s))"
proof -
  have l: "sigmoid_z 20 3 (3 / 2) 2 (- 10) = 3 * (sigmoid 3 + sigmoid (- 37))"
    by (simp add: sigmoid_z_alt)
  have r: "sigmoid_z 20 3 (3 / 2) 2 10 = 3 * (sigmoid (- 37) + sigmoid 3)"
    by (simp add: sigmoid_z_alt)
  have m: "sigmoid_z 20 3 (3 / 2) 2 0 = 3 * (sigmoid (- 17) + sigmoid (- 17))"
    by (simp add: sigmoid_z_alt)
  have s3: "sigmoid 3 = 1 - sigmoid (- 3)"
    using sigmoid_bounds(4) [of "- 3"] by simp
  have c1: "\<bar>sigmoid_z 20 3 (3 / 2) 2 (- 10) - 3\<bar> < 3 / 20"
    unfolding l s3 using sigmoid_neg3 sigmoid_neg37 by argo
  have c2: "\<bar>sigmoid_z 20 3 (3 / 2) 2 10 - 3\<bar> < 3 / 20"
    unfolding r s3 using sigmoid_neg3 sigmoid_neg37 by argo
  have c3: "\<bar>sigmoid_z 20 3 (3 / 2) 2 0\<bar> < 1 / 10 ^ 6"
  proof -
    have "(1 / (6 * 10 ^ 6) :: real) = 1 / 6000000" by simp
    with sigmoid_neg17 have "sigmoid (- 17) < 1 / 6000000" by simp
    with sigmoid_neg17(1) show ?thesis unfolding m by simp
  qed
  have c4: "\<bar>sigmoid_z 20 3 (3 / 2) s (- 10) - 3\<bar> \<le> 3 * (exp (- (3 / 2) * s) + exp (- (37 / 2) * s))" for s
    using sigmoid_z_near_left [of 20 3 "3 / 2" s "- 10"] by (simp add: algebra_simps)
  have c5: "\<bar>sigmoid_z 20 3 (3 / 2) s 10 - 3\<bar> \<le> 3 * (exp (- (3 / 2) * s) + exp (- (37 / 2) * s))" for s
    using sigmoid_z_near_right [of 20 3 "3 / 2" s 10] by (simp add: algebra_simps)
  have c6: "\<bar>sigmoid_z 20 3 (3 / 2) s 0\<bar> \<le> 6 * exp (- (17 / 2) * s)" for s
    using sigmoid_z_middle [of 20 3 "3 / 2" s 0] by (simp add: algebra_simps)
  from c1 c2 c3 c4 c5 c6 show ?thesis
    by blast
qed






section \<open>Square lattice: sites and edges\<close>

lemma dict_set_fresh: "k \<notin> fst ` set d \<Longrightarrow> dict_set k v d = d @ [(k, v)]"
  by (induction d) (auto simp: dict_set_def)

lemma fold_dict_set_fresh:
  "distinct (map kf xs) \<Longrightarrow> kf ` set xs \<inter> fst ` set d = {} \<Longrightarrow>
   fold (\<lambda>x. dict_set (kf x) (vf x)) xs d = d @ map (\<lambda>x. (kf x, vf x)) xs"
proof (induction xs arbitrary: d)
  case Nil
  show ?case by simp
next
  case (Cons x xs)
  have fresh: "kf x \<notin> fst ` set d"
    using Cons.prems(2) by auto
  have step: "dict_set (kf x) (vf x) d = d @ [(kf x, vf x)]"
    using fresh by (rule dict_set_fresh)
  have d: "distinct (map kf xs)"
    using Cons.prems(1) by simp
  have disj: "kf ` set xs \<inter> fst ` set (d @ [(kf x, vf x)]) = {}"
    using Cons.prems by auto
  show ?case
    using Cons.IH [OF d disj] by (simp add: step)
qed

lemma fold_product:
  "fold (\<lambda>r. fold (\<lambda>c. h (r, c)) cs) rs s = fold h (List.product rs cs) s"
proof (induction rs arbitrary: s)
  case Nil
  show ?case by simp
next
  case (Cons r rs)
  have "fold h (map (Pair r) cs) s = fold (\<lambda>c. h (r, c)) cs s"
    by (simp add: fold_map comp_def)
  then show ?case
    by (simp add: Cons.IH)
qed

lemma set_py_range: "set (py_range n) = {i. 0 \<le> i \<and> i < n}"
proof (rule set_eqI)
  fix i
  show "i \<in> set (py_range n) \<longleftrightarrow> i \<in> {i. 0 \<le> i \<and> i < n}"
  proof
    assume "i \<in> set (py_range n)"
    then show "i \<in> {i. 0 \<le> i \<and> i < n}"
      by (auto simp: py_range_def)
  next
    assume a: "i \<in> {i. 0 \<le> i \<and> i < n}"
    then have m: "nat i < nat n" and e: "int (nat i) = i"
      by auto
    have "int (nat i) \<in> int ` {0..<nat n}"
      using m by (intro imageI) simp
    then show "i \<in> set (py_range n)"
      unfolding e by (simp add: py_range_def)
  qed
qed

lemma distinct_py_range: "distinct (py_range n)"
  by (simp add: py_range_def distinct_map inj_on_def)

lemma length_py_range: "length (py_range n) = nat n"
  by (simp add: py_range_def)

lemma build_sites_eq:
  "build_sites p R C [] = map (\<lambda>k. (k, site_pos p k)) (List.product (py_range R) (py_range C))"
proof -
  have "build_sites p R C [] =
          fold (\<lambda>k. dict_set k (site_pos p k)) (List.product (py_range R) (py_range C)) []"
    unfolding build_sites_def
    using fold_product [of "\<lambda>k. dict_set k (site_pos p k)" "py_range C" "py_range R" "[]"]
    by (simp add: site_pos_def)
  also have "\<dots> = [] @ map (\<lambda>k. (k, site_pos p k)) (List.product (py_range R) (py_range C))"
    by (rule fold_dict_set_fresh) (simp_all add: distinct_product distinct_py_range)
  finally show ?thesis by simp
qed

lemma for_each_ok:
  "(\<And>x s. x \<in> set xs \<Longrightarrow> body x s = Inr (g x s)) \<Longrightarrow> for_each xs body s = Inr (fold g xs s)"
  by (induction xs arbitrary: s) simp_all

lemma for_each_fails:
  "xs \<noteq> [] \<Longrightarrow> (\<And>x s. x \<in> set xs \<Longrightarrow> body x s = Inl e) \<Longrightarrow> for_each xs body s = Inl e"
  by (cases xs) simp_all

lemma dict_get_sites:
  assumes "0 \<le> r" "r < R" "0 \<le> c" "c < C"
  shows "dict_get (build_sites p R C []) (r, c) = Inr (site_pos p (r, c))"
proof -
  have "(r, c) \<in> set (List.product (py_range R) (py_range C))"
    using assms by (simp add: set_py_range)
  then show ?thesis
    by (simp add: dict_get_def build_sites_eq map_of_map_restrict)
qed


lemma horizontal_edge_ok:
  assumes "r \<in> set (py_range R)" "c \<in> set (py_range (C - 1))"
  shows "horizontal_edge (build_sites p R C []) r c ep
           = Inr (dict_set (h_key (r, c)) (h_info p (r, c)) ep)"
proof -
  have b: "0 \<le> r" "r < R" "0 \<le> c" "c < C" "0 \<le> c + 1" "c + 1 < C"
    using assms by (simp_all add: set_py_range)
  show ?thesis
    unfolding horizontal_edge_def
    by (simp add: dict_get_sites [OF b(1,2,3,4)] dict_get_sites [OF b(1,2,5,6)]
        h_key_def h_info_def)
qed

lemma vertical_edge_ok:
  assumes "r \<in> set (py_range (R - 1))" "c \<in> set (py_range C)"
  shows "vertical_edge (build_sites p R C []) r c ep
           = Inr (dict_set (v_key (r, c)) (v_info p (r, c)) ep)"
proof -
  have b: "0 \<le> r" "r < R" "0 \<le> c" "c < C" "0 \<le> r + 1" "r + 1 < R"
    using assms by (simp_all add: set_py_range)
  show ?thesis
    unfolding vertical_edge_def
    by (simp add: dict_get_sites [OF b(1,2,3,4)] dict_get_sites [OF b(5,6,3,4)]
        v_key_def v_info_def)
qed

lemma horizontal_loop:
  "for_each (py_range R) (\<lambda>r. for_each (py_range (C - 1)) (horizontal_edge (build_sites p R C []) r)) ep
     = Inr (fold (\<lambda>k. dict_set (h_key k) (h_info p k)) (List.product (py_range R) (py_range (C - 1))) ep)"
proof -
  have inner: "for_each (py_range (C - 1)) (horizontal_edge (build_sites p R C []) r) s
                 = Inr (fold (\<lambda>c. dict_set (h_key (r, c)) (h_info p (r, c))) (py_range (C - 1)) s)"
    if "r \<in> set (py_range R)" for r s
    by (rule for_each_ok) (rule horizontal_edge_ok [OF that])
  have "for_each (py_range R) (\<lambda>r. for_each (py_range (C - 1)) (horizontal_edge (build_sites p R C []) r)) ep
          = Inr (fold (\<lambda>r. fold (\<lambda>c. dict_set (h_key (r, c)) (h_info p (r, c))) (py_range (C - 1)))
                   (py_range R) ep)"
    by (rule for_each_ok) (rule inner)
  then show ?thesis
    by (simp add: fold_product [of "\<lambda>k. dict_set (h_key k) (h_info p k)"])
qed

lemma vertical_loop:
  "for_each (py_range (R - 1)) (\<lambda>r. for_each (py_range C) (vertical_edge (build_sites p R C []) r)) ep
     = Inr (fold (\<lambda>k. dict_set (v_key k) (v_info p k)) (List.product (py_range (R - 1)) (py_range C)) ep)"
proof -
  have inner: "for_each (py_range C) (vertical_edge (build_sites p R C []) r) s
                 = Inr (fold (\<lambda>c. dict_set (v_key (r, c)) (v_info p (r, c))) (py_range C) s)"
    if "r \<in> set (py_range (R - 1))" for r s
    by (rule for_each_ok) (rule vertical_edge_ok [OF that])
  have "for_each (py_range (R - 1)) (\<lambda>r. for_each (py_range C) (vertical_edge (build_sites p R C []) r)) ep
          = Inr (fold (\<lambda>r. fold (\<lambda>c. dict_set (v_key (r, c)) (v_info p (r, c))) (py_range C))
                   (py_range (R - 1)) ep)"
    by (rule for_each_ok) (rule inner)
  then show ?thesis
    by (simp add: fold_product [of "\<lambda>k. dict_set (v_key k) (v_info p k)"])
qed

lemma distinct_h_keys: "distinct (map h_key (h_sites R C))"
  by (simp add: distinct_map h_sites_def distinct_product distinct_py_range inj_on_def h_key_def)

lemma distinct_v_keys: "distinct (map v_key (v_sites R C))"
  by (simp add: distinct_map v_sites_def distinct_product distinct_py_range inj_on_def v_key_def)

lemma h_v_keys_disjoint: "h_key a \<noteq> v_key b"
  by (auto simp: h_key_def v_key_def prod_eq_iff)

lemma build_positions_eq:
  "build_positions lc =
     Inr (map (\<lambda>k. (k, site_pos (pitch lc) k)) (List.product (py_range (rows lc)) (py_range (cols lc))),
          map (\<lambda>k. (h_key k, h_info (pitch lc) k)) (h_sites (rows lc) (cols lc))
            @ map (\<lambda>k. (v_key k, v_info (pitch lc) k)) (v_sites (rows lc) (cols lc)))"
proof -
  let ?p = "pitch lc" and ?R = "rows lc" and ?C = "cols lc"
  have h: "fold (\<lambda>k. dict_set (h_key k) (h_info ?p k)) (h_sites ?R ?C) []
             = [] @ map (\<lambda>k. (h_key k, h_info ?p k)) (h_sites ?R ?C)"
    by (rule fold_dict_set_fresh) (simp_all add: distinct_h_keys)
  have v: "fold (\<lambda>k. dict_set (v_key k) (v_info ?p k)) (v_sites ?R ?C)
             (map (\<lambda>k. (h_key k, h_info ?p k)) (h_sites ?R ?C))
             = map (\<lambda>k. (h_key k, h_info ?p k)) (h_sites ?R ?C)
                 @ map (\<lambda>k. (v_key k, v_info ?p k)) (v_sites ?R ?C)"
    by (rule fold_dict_set_fresh) (auto simp: distinct_v_keys h_v_keys_disjoint image_iff)
  show ?thesis
    unfolding build_positions_def Let_def horizontal_loop vertical_loop
    using h v by (simp add: build_sites_eq h_sites_def v_sites_def)
qed


lemma Xmon_init_ok: "\<exists>x. Xmon_init d None = Inr x"
  by (cases d) (simp_all add: Xmon_init_def Xmon_arm_patches_def dict_get_def Let_def)

lemma JJChain_init_cases:
  "(island_len d + gap d = 0 \<longrightarrow> JJChain_init d = Inl ZeroDivisionError)
   \<and> (island_len d + gap d \<noteq> 0 \<longrightarrow> (\<exists>ch. JJChain_init d = Inr ch))"
  by (simp add: JJChain_init_def Let_def split: prod.splits)

lemma FluxoniumQubit_init_cases:
  "(island_len (FluxoniumDims.chain fd) + gap (FluxoniumDims.chain fd) = 0
      \<longrightarrow> FluxoniumQubit_init (Some fd) = Inl ZeroDivisionError)
   \<and> (island_len (FluxoniumDims.chain fd) + gap (FluxoniumDims.chain fd) \<noteq> 0
      \<longrightarrow> (\<exists>q. FluxoniumQubit_init (Some fd) = Inr q))"
proof -
  obtain x where x: "Xmon_init (Inl (FluxoniumDims.xmon fd)) None = Inr x"
    using Xmon_init_ok by blast
  show ?thesis
    using JJChain_init_cases [of "FluxoniumDims.chain fd"]
    by (auto simp: FluxoniumQubit_init_def x)
qed

lemma dict_get_SHORT_ARM_ANGLES:
  "dict_get SHORT_ARM_ANGLES i =
     (if i = 0 then Inr 90 else if i = 1 then Inr 270 else Inl KeyError)"
  by (simp add: dict_get_def SHORT_ARM_ANGLES_def)

lemma TunableTransmonCoupler_init_cases:
  "(squid_arm_index cd \<in> {0, 1} \<and> resonator_arm_index cd \<in> {0, 1}
      \<longrightarrow> (\<exists>q. TunableTransmonCoupler_init (Some cd) = Inr q))
   \<and> (\<not> (squid_arm_index cd \<in> {0, 1} \<and> resonator_arm_index cd \<in> {0, 1})
      \<longrightarrow> TunableTransmonCoupler_init (Some cd) = Inl KeyError)"
proof -
  obtain x where x: "Xmon_init (Inr (TunableTransmonDims.xmon cd)) None = Inr x"
    using Xmon_init_ok by blast
  show ?thesis
    by (auto simp: TunableTransmonCoupler_init_def x dict_get_SHORT_ARM_ANGLES)
qed

lemma SquareLattice_init_fields:
  assumes "SquareLattice_init config fa ca = Inr L"
  shows "build_positions (cfg L) = Inr (site_positions L, edge_positions L)"
    and "rows (cfg L) = rows (case config of None \<Rightarrow> LatticeConfig_default | Some x \<Rightarrow> x)"
    and "cols (cfg L) = cols (case config of None \<Rightarrow> LatticeConfig_default | Some x \<Rightarrow> x)"
    and "pitch (cfg L) =
           (let c0 = (case config of None \<Rightarrow> LatticeConfig_default | Some x \<Rightarrow> x)
            in if pitch c0 \<le> 0
               then compute_min_pitch c0
                      (case fa of None \<Rightarrow> FluxoniumDims_default | Some x \<Rightarrow> x)
                      (case ca of None \<Rightarrow> TunableTransmonDims_default | Some x \<Rightarrow> x)
               else pitch c0)"
  using assms
  by (auto simp: SquareLattice_init_def Let_def split: sum.splits prod.splits if_splits)

lemma lattice_lists:
  assumes "SquareLattice_init config fa ca = Inr L"
  shows "site_positions L = map (\<lambda>k. (k, site_pos (pitch (cfg L)) k))
           (List.product (py_range (rows (cfg L))) (py_range (cols (cfg L))))"
    and "edge_positions L =
           map (\<lambda>k. (h_key k, h_info (pitch (cfg L)) k)) (h_sites (rows (cfg L)) (cols (cfg L)))
             @ map (\<lambda>k. (v_key k, v_info (pitch (cfg L)) k)) (v_sites (rows (cfg L)) (cols (cfg L)))"
  using SquareLattice_init_fields(1) [OF assms] unfolding build_positions_eq by simp_all

lemma edge_keys_distinct:
  "distinct (map fst (map (\<lambda>k. (h_key k, h_info p k)) (h_sites R C)
                       @ map (\<lambda>k. (v_key k, v_info p k)) (v_sites R C)))"
proof -
  have e: "map fst (map (\<lambda>k. (h_key k, h_info p k)) (h_sites R C)
                       @ map (\<lambda>k. (v_key k, v_info p k)) (v_sites R C))
          = map h_key (h_sites R C) @ map v_key (v_sites R C)"
    by (simp add: comp_def)
  have d: "set (map h_key (h_sites R C)) \<inter> set (map v_key (v_sites R C)) = {}"
    by (auto simp: h_key_def v_key_def)
  show ?thesis
    unfolding e distinct_append using distinct_h_keys [of R C] distinct_v_keys [of R C] d
    by blast
qed

lemma set_h_sites: "set (h_sites R C) = {(r, c). 0 \<le> r \<and> r < R \<and> 0 \<le> c \<and> c + 1 < C}"
  by (auto simp: h_sites_def set_py_range)

lemma set_v_sites: "set (v_sites R C) = {(r, c). 0 \<le> r \<and> r + 1 < R \<and> 0 \<le> c \<and> c < C}"
  by (auto simp: v_sites_def set_py_range)

lemma length_h_sites: "0 \<le> R \<Longrightarrow> 1 \<le> C \<Longrightarrow> int (length (h_sites R C)) = R * (C - 1)"
  by (simp add: h_sites_def length_py_range)

lemma length_v_sites: "1 \<le> R \<Longrightarrow> 0 \<le> C \<Longrightarrow> int (length (v_sites R C)) = (R - 1) * C"
  by (simp add: v_sites_def length_py_range)


lemma SquareLattice_init_result:
  "(island_len (FluxoniumDims.chain (case fa of None \<Rightarrow> FluxoniumDims_default | Some x \<Rightarrow> x))
      + gap (FluxoniumDims.chain (case fa of None \<Rightarrow> FluxoniumDims_default | Some x \<Rightarrow> x)) = 0
     \<longrightarrow> SquareLattice_init config fa ca = Inl ZeroDivisionError)
   \<and> (island_len (FluxoniumDims.chain (case fa of None \<Rightarrow> FluxoniumDims_default | Some x \<Rightarrow> x))
      + gap (FluxoniumDims.chain (case fa of None \<Rightarrow> FluxoniumDims_default | Some x \<Rightarrow> x)) \<noteq> 0
     \<longrightarrow>
       (squid_arm_index (case ca of None \<Rightarrow> TunableTransmonDims_default | Some x \<Rightarrow> x) \<in> {0, 1}
        \<and> resonator_arm_index (case ca of None \<Rightarrow> TunableTransmonDims_default | Some x \<Rightarrow> x) \<in> {0, 1}
          \<longrightarrow> (\<exists>L. SquareLattice_init config fa ca = Inr L))
       \<and> (\<not> (squid_arm_index (case ca of None \<Rightarrow> TunableTransmonDims_default | Some x \<Rightarrow> x) \<in> {0, 1}
        \<and> resonator_arm_index (case ca of None \<Rightarrow> TunableTransmonDims_default | Some x \<Rightarrow> x) \<in> {0, 1})
          \<longrightarrow> SquareLattice_init config fa ca = Inl KeyError))"
proof -
  define fd where "fd = (case fa of None \<Rightarrow> FluxoniumDims_default | Some x \<Rightarrow> x)"
  define cd where "cd = (case ca of None \<Rightarrow> TunableTransmonDims_default | Some x \<Rightarrow> x)"
  show ?thesis
    unfolding fd_def [symmetric] cd_def [symmetric]
    using FluxoniumQubit_init_cases [of fd] TunableTransmonCoupler_init_cases [of cd]
    by (auto simp: SquareLattice_init_def Let_def build_positions_eq fd_def cd_def)
qed

lemma SquareLattice_init_default_dims: "\<exists>L. SquareLattice_init config None None = Inr L"
  using SquareLattice_init_result [where fa = None and ca = None and config = config]
  by (simp add: FluxoniumDims_default_def JJChainDims_default_def TunableTransmonDims_default_def)

lemma map_of_sites:
  "map_of (map (\<lambda>k. (k, site_pos p k)) (List.product (py_range R) (py_range C))) (r, c) =
     (if 0 \<le> r \<and> r < R \<and> 0 \<le> c \<and> c < C then Some (of_int c * p, of_int r * p) else None)"
  by (simp add: map_of_map_restrict restrict_map_def set_py_range site_pos_def)

lemma map_of_h_edge:
  assumes "0 \<le> r" "r < R" "0 \<le> c" "c + 1 < C"
  shows "map_of (map (\<lambda>k. (h_key k, h_info p k)) (h_sites R C)
                   @ map (\<lambda>k. (v_key k, v_info p k)) (v_sites R C)) ((r, c), (r, c + 1))
           = Some (h_info p (r, c))"
proof -
  have "(r, c) \<in> set (h_sites R C)"
    using assms by (simp add: set_h_sites)
  then have "(h_key (r, c), h_info p (r, c))
               \<in> set (map (\<lambda>k. (h_key k, h_info p k)) (h_sites R C)
                   @ map (\<lambda>k. (v_key k, v_info p k)) (v_sites R C))"
    by auto
  then have "map_of (map (\<lambda>k. (h_key k, h_info p k)) (h_sites R C)
                   @ map (\<lambda>k. (v_key k, v_info p k)) (v_sites R C)) (h_key (r, c))
               = Some (h_info p (r, c))"
    using edge_keys_distinct [of p R C] by (simp only: map_of_eq_Some_iff)
  then show ?thesis
    by (simp add: h_key_def)
qed

lemma map_of_v_edge:
  assumes "0 \<le> r" "r + 1 < R" "0 \<le> c" "c < C"
  shows "map_of (map (\<lambda>k. (h_key k, h_info p k)) (h_sites R C)
                   @ map (\<lambda>k. (v_key k, v_info p k)) (v_sites R C)) ((r, c), (r + 1, c))
           = Some (v_info p (r, c))"
proof -
  have "(r, c) \<in> set (v_sites R C)"
    using assms by (simp add: set_v_sites)
  then have "(v_key (r, c), v_info p (r, c))
               \<in> set (map (\<lambda>k. (h_key k, h_info p k)) (h_sites R C)
                   @ map (\<lambda>k. (v_key k, v_info p k)) (v_sites R C))"
    by auto
  then have "map_of (map (\<lambda>k. (h_key k, h_info p k)) (h_sites R C)
                   @ map (\<lambda>k. (v_key k, v_info p k)) (v_sites R C)) (v_key (r, c))
               = Some (v_info p (r, c))"
    using edge_keys_distinct [of p R C] by (simp only: map_of_eq_Some_iff)
  then show ?thesis
    by (simp add: v_key_def)
qed

lemma edge_keys_adjacent:
  assumes "k \<in> fst ` set (map (\<lambda>k. (h_key k, h_info p k)) (h_sites R C)
                   @ map (\<lambda>k. (v_key k, v_info p k)) (v_sites R C))"
  shows "(\<exists>r c. 0 \<le> r \<and> r < R \<and> 0 \<le> c \<and> c + 1 < C \<and> k = ((r, c), (r, c + 1)))
         \<or> (\<exists>r c. 0 \<le> r \<and> r + 1 < R \<and> 0 \<le> c \<and> c < C \<and> k = ((r, c), (r + 1, c)))"
proof -
  from assms have "k \<in> h_key ` set (h_sites R C) \<or> k \<in> v_key ` set (v_sites R C)"
    by (auto simp: image_iff)
  then show ?thesis
  proof
    assume "k \<in> h_key ` set (h_sites R C)"
    then obtain r c where "(r, c) \<in> set (h_sites R C)" "k = h_key (r, c)"
      by auto
    then have "0 \<le> r \<and> r < R \<and> 0 \<le> c \<and> c + 1 < C \<and> k = ((r, c), (r, c + 1))"
      by (simp add: set_h_sites h_key_def)
    then show ?thesis by blast
  next
    assume "k \<in> v_key ` set (v_sites R C)"
    then obtain r c where "(r, c) \<in> set (v_sites R C)" "k = v_key (r, c)"
      by auto
    then have "0 \<le> r \<and> r + 1 < R \<and> 0 \<le> c \<and> c < C \<and> k = ((r, c), (r + 1, c))"
      by (simp add: set_v_sites v_key_def)
    then show ?thesis by blast
  qed
qed

text \<open>
  Claim C4. For a lattice constructed with \<open>rows \<ge> 1\<close> and \<open>cols \<ge> 1\<close>, with \<open>pitch\<close>
  the pitch the lattice uses: \<open>site_positions\<close> maps exactly the keys \<open>(r, c)\<close> with
  \<open>0 \<le> r < rows\<close> and \<open>0 \<le> c < cols\<close>, each to \<open>(c * pitch, r * pitch)\<close>, and has
  \<open>rows * cols\<close> entries; \<open>edge_positions\<close> has an entry for every horizontally adjacent
  pair \<open>(r,c)-(r,c+1)\<close> and for every vertically adjacent pair \<open>(r,c)-(r+1,c)\<close>, holding
  the midpoint of the two site positions and the tag \<open>horizontal\<close> or \<open>vertical\<close>; it has
  no other key, no key twice, and \<open>rows * (cols - 1) + (rows - 1) * cols\<close> entries.
\<close>

theorem lattice_positions:
  assumes init: "SquareLattice_init config fa ca = Inr L"
    and R: "1 \<le> rows (cfg L)" and C: "1 \<le> cols (cfg L)"
  shows "(\<forall>r c. map_of (site_positions L) (r, c) =
            (if 0 \<le> r \<and> r < rows (cfg L) \<and> 0 \<le> c \<and> c < cols (cfg L)
             then Some (of_int c * pitch (cfg L), of_int r * pitch (cfg L)) else None))
         \<and> distinct (map fst (site_positions L))
         \<and> int (length (site_positions L)) = rows (cfg L) * cols (cfg L)
         \<and> (\<forall>r c. 0 \<le> r \<and> r < rows (cfg L) \<and> 0 \<le> c \<and> c + 1 < cols (cfg L) \<longrightarrow>
              map_of (edge_positions L) ((r, c), (r, c + 1)) =
                Some \<lparr>xy = midpoint2 (of_int c * pitch (cfg L), of_int r * pitch (cfg L))
                                     (of_int (c + 1) * pitch (cfg L), of_int r * pitch (cfg L)),
                      direction = ''horizontal''\<rparr>)
         \<and> (\<forall>r c. 0 \<le> r \<and> r + 1 < rows (cfg L) \<and> 0 \<le> c \<and> c < cols (cfg L) \<longrightarrow>
              map_of (edge_positions L) ((r, c), (r + 1, c)) =
                Some \<lparr>xy = midpoint2 (of_int c * pitch (cfg L), of_int r * pitch (cfg L))
                                     (of_int c * pitch (cfg L), of_int (r + 1) * pitch (cfg L)),
                      direction = ''vertical''\<rparr>)
         \<and> (\<forall>k \<in> fst ` set (edge_positions L).
              (\<exists>r c. 0 \<le> r \<and> r < rows (cfg L) \<and> 0 \<le> c \<and> c + 1 < cols (cfg L)
                      \<and> k = ((r, c), (r, c + 1)))
              \<or> (\<exists>r c. 0 \<le> r \<and> r + 1 < rows (cfg L) \<and> 0 \<le> c \<and> c < cols (cfg L)
                      \<and> k = ((r, c), (r + 1, c))))
         \<and> distinct (map fst (edge_positions L))
         \<and> int (length (edge_positions L))
             = rows (cfg L) * (cols (cfg L) - 1) + (rows (cfg L) - 1) * cols (cfg L)"
proof -
  note sp = lattice_lists(1) [OF init] and ep = lattice_lists(2) [OF init]
  have s1: "\<forall>r c. map_of (site_positions L) (r, c) =
            (if 0 \<le> r \<and> r < rows (cfg L) \<and> 0 \<le> c \<and> c < cols (cfg L)
             then Some (of_int c * pitch (cfg L), of_int r * pitch (cfg L)) else None)"
    unfolding sp by (simp only: map_of_sites) simp
  have s2: "distinct (map fst (site_positions L))"
    unfolding sp by (simp add: comp_def distinct_product distinct_py_range)
  have s3: "int (length (site_positions L)) = rows (cfg L) * cols (cfg L)"
    unfolding sp using R C by (simp add: length_py_range)
  have e1: "\<forall>r c. 0 \<le> r \<and> r < rows (cfg L) \<and> 0 \<le> c \<and> c + 1 < cols (cfg L) \<longrightarrow>
              map_of (edge_positions L) ((r, c), (r, c + 1)) =
                Some \<lparr>xy = midpoint2 (of_int c * pitch (cfg L), of_int r * pitch (cfg L))
                                     (of_int (c + 1) * pitch (cfg L), of_int r * pitch (cfg L)),
                      direction = ''horizontal''\<rparr>"
  proof (intro allI impI)
    fix r c
    assume a: "0 \<le> r \<and> r < rows (cfg L) \<and> 0 \<le> c \<and> c + 1 < cols (cfg L)"
    then have "map_of (edge_positions L) ((r, c), (r, c + 1)) = Some (h_info (pitch (cfg L)) (r, c))"
      unfolding ep by (intro map_of_h_edge) simp_all
    then show "map_of (edge_positions L) ((r, c), (r, c + 1)) =
                Some \<lparr>xy = midpoint2 (of_int c * pitch (cfg L), of_int r * pitch (cfg L))
                                     (of_int (c + 1) * pitch (cfg L), of_int r * pitch (cfg L)),
                      direction = ''horizontal''\<rparr>"
      by (simp add: h_info_def site_pos_def)
  qed
  have e2: "\<forall>r c. 0 \<le> r \<and> r + 1 < rows (cfg L) \<and> 0 \<le> c \<and> c < cols (cfg L) \<longrightarrow>
              map_of (edge_positions L) ((r, c), (r + 1, c)) =
                Some \<lparr>xy = midpoint2 (of_int c * pitch (cfg L), of_int r * pitch (cfg L))
                                     (of_int c * pitch (cfg L), of_int (r + 1) * pitch (cfg L)),
                      direction = ''vertical''\<rparr>"
  proof (intro allI impI)
    fix r c
    assume a: "0 \<le> r \<and> r + 1 < rows (cfg L) \<and> 0 \<le> c \<and> c < cols (cfg L)"
    then have "map_of (edge_positions L) ((r, c), (r + 1, c)) = Some (v_info (pitch (cfg L)) (r, c))"
      unfolding ep by (intro map_of_v_edge) simp_all
    then show "map_of (edge_positions L) ((r, c), (r + 1, c)) =
                Some \<lparr>xy = midpoint2 (of_int c * pitch (cfg L), of_int r * pitch (cfg L))
                                     (of_int c * pitch (cfg L), of_int (r + 1) * pitch (cfg L)),
                      direction = ''vertical''\<rparr>"
      by (simp add: v_info_def site_pos_def)
  qed
  have e3: "\<forall>k \<in> fst ` set (edge_positions L).
              (\<exists>r c. 0 \<le> r \<and> r < rows (cfg L) \<and> 0 \<le> c \<and> c + 1 < cols (cfg L)
                      \<and> k = ((r, c), (r, c + 1)))
              \<or> (\<exists>r c. 0 \<le> r \<and> r + 1 < rows (cfg L) \<and> 0 \<le> c \<and> c < cols (cfg L)
                      \<and> k = ((r, c), (r + 1, c)))"
    unfolding ep using edge_keys_adjacent by blast
  have e4: "distinct (map fst (edge_positions L))"
    unfolding ep by (rule edge_keys_distinct)
  have e5: "int (length (edge_positions L))
             = rows (cfg L) * (cols (cfg L) - 1) + (rows (cfg L) - 1) * cols (cfg L)"
    unfolding ep using R C length_h_sites [of "rows (cfg L)" "cols (cfg L)"]
      length_v_sites [of "rows (cfg L)" "cols (cfg L)"]
    by simp
  from s1 s2 s3 e1 e2 e3 e4 e5 show ?thesis
    by blast
qed


theorem lattice_positions_witness:
  "\<exists>L. SquareLattice_init (Some \<lparr>rows = 2, cols = 3, pitch = 10, pad_gap = 20\<rparr>) None None = Inr L
       \<and> 1 \<le> rows (cfg L) \<and> 1 \<le> cols (cfg L)
       \<and> map_of (site_positions L) (1, 2) = Some (20, 10)
       \<and> map_of (site_positions L) (2, 0) = None
       \<and> int (length (site_positions L)) = 6
       \<and> map_of (edge_positions L) ((1, 1), (1, 2)) = Some \<lparr>xy = (15, 10), direction = ''horizontal''\<rparr>
       \<and> map_of (edge_positions L) ((0, 2), (1, 2)) = Some \<lparr>xy = (20, 5), direction = ''vertical''\<rparr>
       \<and> int (length (edge_positions L)) = 7"
proof -
  let ?c = "\<lparr>rows = 2, cols = 3, pitch = 10, pad_gap = 20\<rparr>"
  obtain L where L: "SquareLattice_init (Some ?c) None None = Inr L"
    using SquareLattice_init_default_dims by blast
  have f: "rows (cfg L) = 2" "cols (cfg L) = 3" "pitch (cfg L) = 10"
    using SquareLattice_init_fields(2,3,4) [OF L] by simp_all
  have h: "1 \<le> rows (cfg L)" "1 \<le> cols (cfg L)"
    by (simp_all add: f)
  note th = lattice_positions [OF L h, unfolded f]
  have s1: "map_of (site_positions L) (r, c) =
            (if 0 \<le> r \<and> r < 2 \<and> 0 \<le> c \<and> c < 3
             then Some (of_int c * 10, of_int r * 10) else None)" for r c
    using th by blast
  have e1: "map_of (edge_positions L) ((1, 1), (1, 1 + 1)) =
                Some \<lparr>xy = midpoint2 (of_int 1 * 10, of_int 1 * 10)
                                     (of_int (1 + 1) * 10, of_int 1 * 10),
                      direction = ''horizontal''\<rparr>"
    using th by (intro conjunct1 [OF conjunct2 [OF conjunct2 [OF conjunct2 [OF th]]], rule_format]) simp
  have e2: "map_of (edge_positions L) ((0, 2), (0 + 1, 2)) =
                Some \<lparr>xy = midpoint2 (of_int 2 * 10, of_int 0 * 10)
                                     (of_int 2 * 10, of_int (0 + 1) * 10),
                      direction = ''vertical''\<rparr>"
    by (intro conjunct1 [OF conjunct2 [OF conjunct2 [OF conjunct2 [OF conjunct2 [OF th]]]], rule_format]) simp
  have n: "int (length (site_positions L)) = 2 * 3"
          "int (length (edge_positions L)) = 2 * (3 - 1) + (2 - 1) * 3"
    using th by blast+
  have "map_of (site_positions L) (1, 2) = Some (20, 10)
       \<and> map_of (site_positions L) (2, 0) = None
       \<and> int (length (site_positions L)) = 6
       \<and> map_of (edge_positions L) ((1, 1), (1, 2)) = Some \<lparr>xy = (15, 10), direction = ''horizontal''\<rparr>
       \<and> map_of (edge_positions L) ((0, 2), (1, 2)) = Some \<lparr>xy = (20, 5), direction = ''vertical''\<rparr>
       \<and> int (length (edge_positions L)) = 7"
    using s1 [of 1 2] s1 [of 2 0] e1 e2 n by (simp add: midpoint2_def)
  with L h show ?thesis
    by blast
qed


section \<open>Square lattice: construction does not validate\<close>

lemma product_Nil_right: "List.product xs [] = []"
  by (induction xs) simp_all






section \<open>Square lattice: drawing a single row or a single column\<close>

lemma edge_angle_values: "edge_angle ''horizontal'' = Inr 0" "edge_angle ''vertical'' = Inr 90"
  by (simp_all add: edge_angle_def dict_get_def)

lemma place_edge_fails:
  assumes "edge_angle (direction info) = Inr a"
    and "mirror_for_edge (cfg L) k (direction info) first_cell = Inl e"
  shows "place_edge L ox oy labels fs (Some ''checkerboard'') first_cell (idx, (k, info)) ax = Inl e"
  using assms by (simp add: place_edge_def Let_def)

lemma place_fails:
  assumes ne: "edge_positions L \<noteq> []"
    and all: "\<And>k info. (k, info) \<in> set (edge_positions L) \<Longrightarrow>
                (\<exists>a. edge_angle (direction info) = Inr a)
                \<and> mirror_for_edge (cfg L) k (direction info) first_cell = Inl e"
  shows "place L ax origin labels fs (Some ''checkerboard'') first_cell shade alpha = Inl e"
proof -
  let ?items = "enumerate 0 (sort_key fst (edge_positions L))"
  have "length ?items = length (edge_positions L)"
    by simp
  then have items_ne: "?items \<noteq> []"
    using ne by (metis length_0_conv)
  have body: "place_edge L (fst origin) (snd origin) labels fs (Some ''checkerboard'') first_cell x s = Inl e"
    if "x \<in> set ?items" for x s
  proof -
    obtain idx k info where x: "x = (idx, (k, info))"
      by (metis prod.exhaust)
    have "(k, info) \<in> set (sort_key fst (edge_positions L))"
      using that unfolding x enumerate_eq_zip by (rule set_zip_rightD)
    then have "(k, info) \<in> set (edge_positions L)"
      by simp
    from all [OF this] show ?thesis
      unfolding x using place_edge_fails by blast
  qed
  show ?thesis
    unfolding place_def Let_def
    by (rule for_each_fails [OF items_ne]) (rule body)
qed

lemma single_row_edges:
  assumes "R = 1" "2 \<le> C"
  shows "v_sites R C = []" "h_sites R C \<noteq> []" "\<And>k. k \<in> set (h_sites R C) \<Longrightarrow> fst k = 0"
proof -
  show "v_sites R C = []"
    using assms by (simp add: v_sites_def py_range_def)
  have "(0, 0) \<in> set (h_sites R C)"
    using assms by (simp add: set_h_sites)
  then show "h_sites R C \<noteq> []"
    by auto
  show "fst k = 0" if "k \<in> set (h_sites R C)" for k
    using that assms by (auto simp: set_h_sites)
qed

lemma single_column_edges:
  assumes "C = 1" "2 \<le> R"
  shows "h_sites R C = []" "v_sites R C \<noteq> []" "\<And>k. k \<in> set (v_sites R C) \<Longrightarrow> snd k = 0"
proof -
  show "h_sites R C = []"
    using assms by (simp add: h_sites_def py_range_def product_Nil_right)
  have "(0, 0) \<in> set (v_sites R C)"
    using assms by (simp add: set_v_sites)
  then show "v_sites R C \<noteq> []"
    by auto
  show "snd k = 0" if "k \<in> set (v_sites R C)" for k
    using that assms by (auto simp: set_v_sites)
qed

text \<open>
  Claim C9. In a constructed lattice with \<open>rows = 1\<close> and \<open>cols \<ge> 2\<close> a horizontal edge
  has neither a cell above nor a cell below, so \<open>_mirror_for_edge\<close> reaches the call
  \<open>self._cell_type(*cell_below, ...)\<close> with \<open>cell_below = None\<close> and raises
  \<open>TypeError\<close>; in a lattice with \<open>cols = 1\<close> and \<open>rows \<ge> 2\<close> the same happens on
  every vertical edge with \<open>cell_left = None\<close>. Such a lattice has at least one edge and
  \<open>_mirror_for_edge\<close> raises on each of its edges, so \<open>place\<close> with the checkerboard
  cell pattern raises \<open>TypeError\<close>, whatever its other arguments.
\<close>

theorem place_fails_on_single_row_or_column:
  assumes init: "SquareLattice_init config fa ca = Inr L"
    and shape: "(rows (cfg L) = 1 \<and> 2 \<le> cols (cfg L)) \<or> (cols (cfg L) = 1 \<and> 2 \<le> rows (cfg L))"
  shows "edge_positions L \<noteq> []
         \<and> (\<forall>k info. (k, info) \<in> set (edge_positions L) \<longrightarrow>
               mirror_for_edge (cfg L) k (direction info) first_cell = Inl TypeError)
         \<and> (rows (cfg L) = 1 \<longrightarrow>
               (\<forall>c. 0 \<le> c \<and> c + 1 < cols (cfg L) \<longrightarrow>
                  mirror_for_edge (cfg L) ((0, c), (0, c + 1)) ''horizontal'' first_cell
                    = Inl TypeError))
         \<and> (cols (cfg L) = 1 \<longrightarrow>
               (\<forall>r. 0 \<le> r \<and> r + 1 < rows (cfg L) \<longrightarrow>
                  mirror_for_edge (cfg L) ((r, 0), (r + 1, 0)) ''vertical'' first_cell
                    = Inl TypeError))
         \<and> place L ax origin labels fs (Some ''checkerboard'') first_cell shade alpha
             = Inl TypeError"
proof -
  note ep = lattice_lists(2) [OF init]
  have row: "mirror_for_edge (cfg L) ((0, c), k2) ''horizontal'' first_cell = Inl TypeError"
    if "rows (cfg L) = 1" for c k2
    using that by (intro mirror_horizontal_no_cell) simp_all
  have col: "mirror_for_edge (cfg L) ((r, 0), k2) ''vertical'' first_cell = Inl TypeError"
    if "cols (cfg L) = 1" for r k2
    using that by (intro mirror_vertical_no_cell) simp_all
  have edges: "edge_positions L \<noteq> []
      \<and> (\<forall>k info. (k, info) \<in> set (edge_positions L) \<longrightarrow>
            (\<exists>a. edge_angle (direction info) = Inr a)
            \<and> mirror_for_edge (cfg L) k (direction info) first_cell = Inl TypeError)"
    using shape
  proof
    assume a: "rows (cfg L) = 1 \<and> 2 \<le> cols (cfg L)"
    note s = single_row_edges [of "rows (cfg L)" "cols (cfg L)"]
    have v: "v_sites (rows (cfg L)) (cols (cfg L)) = []"
      using a by (intro s(1)) simp_all
    have ne: "h_sites (rows (cfg L)) (cols (cfg L)) \<noteq> []"
      using a by (intro s(2)) simp_all
    have z: "fst k = 0" if "k \<in> set (h_sites (rows (cfg L)) (cols (cfg L)))" for k
      using a that by (intro s(3)) simp_all
    have "(\<exists>a. edge_angle (direction info) = Inr a)
            \<and> mirror_for_edge (cfg L) k (direction info) first_cell = Inl TypeError"
      if "(k, info) \<in> set (edge_positions L)" for k info
    proof -
      from that obtain s where s: "s \<in> set (h_sites (rows (cfg L)) (cols (cfg L)))"
        and k: "k = h_key s" and i: "info = h_info (pitch (cfg L)) s"
        unfolding ep v by auto
      have d: "direction info = ''horizontal''"
        by (simp add: i h_info_def)
      have "k = ((0, snd s), (fst s, snd s + 1))"
        using z [OF s] by (simp add: k h_key_def prod_eq_iff)
      then show ?thesis
        unfolding d using row a by (simp add: edge_angle_values)
    qed
    moreover have "edge_positions L \<noteq> []"
      unfolding ep using ne by simp
    ultimately show ?thesis
      by blast
  next
    assume a: "cols (cfg L) = 1 \<and> 2 \<le> rows (cfg L)"
    note s = single_column_edges [of "cols (cfg L)" "rows (cfg L)"]
    have h: "h_sites (rows (cfg L)) (cols (cfg L)) = []"
      using a by (intro s(1)) simp_all
    have ne: "v_sites (rows (cfg L)) (cols (cfg L)) \<noteq> []"
      using a by (intro s(2)) simp_all
    have z: "snd k = 0" if "k \<in> set (v_sites (rows (cfg L)) (cols (cfg L)))" for k
      using a that by (intro s(3)) simp_all
    have "(\<exists>a. edge_angle (direction info) = Inr a)
            \<and> mirror_for_edge (cfg L) k (direction info) first_cell = Inl TypeError"
      if "(k, info) \<in> set (edge_positions L)" for k info
    proof -
      from that obtain s where s: "s \<in> set (v_sites (rows (cfg L)) (cols (cfg L)))"
        and k: "k = v_key s" and i: "info = v_info (pitch (cfg L)) s"
        unfolding ep h by auto
      have d: "direction info = ''vertical''"
        by (simp add: i v_info_def)
      have "k = ((fst s, 0), (fst s + 1, snd s))"
        using z [OF s] by (simp add: k v_key_def prod_eq_iff)
      then show ?thesis
        unfolding d using col a by (simp add: edge_angle_values)
    qed
    moreover have "edge_positions L \<noteq> []"
      unfolding ep using ne by simp
    ultimately show ?thesis
      by blast
  qed
  have pl: "place L ax origin labels fs (Some ''checkerboard'') first_cell shade alpha
             = Inl TypeError"
    using edges by (intro place_fails) blast+
  from edges pl row col show ?thesis
    by blast
qed

theorem place_fails_on_single_row_or_column_witness:
  "(\<exists>L. SquareLattice_init (Some \<lparr>rows = 1, cols = 3, pitch = 0, pad_gap = 20\<rparr>) None None = Inr L
        \<and> rows (cfg L) = 1 \<and> 2 \<le> cols (cfg L)
        \<and> edge_positions L \<noteq> []
        \<and> mirror_for_edge (cfg L) ((0, 1), (0, 2)) ''horizontal'' ''resonator'' = Inl TypeError
        \<and> place L [] (0, 0) False 8 (Some ''checkerboard'') ''resonator'' True (15 / 100)
            = Inl TypeError)
   \<and> (\<exists>L. SquareLattice_init (Some \<lparr>rows = 2, cols = 1, pitch = 0, pad_gap = 20\<rparr>) None None = Inr L
        \<and> cols (cfg L) = 1 \<and> 2 \<le> rows (cfg L)
        \<and> edge_positions L \<noteq> []
        \<and> mirror_for_edge (cfg L) ((0, 0), (1, 0)) ''vertical'' ''resonator'' = Inl TypeError
        \<and> place L [] (0, 0) False 8 (Some ''checkerboard'') ''resonator'' True (15 / 100)
            = Inl TypeError)"
proof -
  obtain L where L: "SquareLattice_init (Some \<lparr>rows = 1, cols = 3, pitch = 0, pad_gap = 20\<rparr>) None None = Inr L"
    using SquareLattice_init_default_dims by blast
  have f: "rows (cfg L) = 1" "cols (cfg L) = 3"
    using SquareLattice_init_fields(2,3) [OF L] by simp_all
  have s: "(rows (cfg L) = 1 \<and> 2 \<le> cols (cfg L)) \<or> (cols (cfg L) = 1 \<and> 2 \<le> rows (cfg L))"
    by (simp add: f)
  note t = place_fails_on_single_row_or_column [OF L s, of "''resonator''" "[]" "(0, 0)" False 8 True "15 / 100"]
  have m1: "mirror_for_edge (cfg L) ((0, 1), (0, 1 + 1)) ''horizontal'' ''resonator'' = Inl TypeError"
    using t f by (intro conjunct1 [OF conjunct2 [OF conjunct2 [OF t]], rule_format]) simp_all
  have one: "rows (cfg L) = 1 \<and> 2 \<le> cols (cfg L)
        \<and> edge_positions L \<noteq> []
        \<and> mirror_for_edge (cfg L) ((0, 1), (0, 2)) ''horizontal'' ''resonator'' = Inl TypeError
        \<and> place L [] (0, 0) False 8 (Some ''checkerboard'') ''resonator'' True (15 / 100)
            = Inl TypeError"
    using t f m1 by simp
  obtain M where M: "SquareLattice_init (Some \<lparr>rows = 2, cols = 1, pitch = 0, pad_gap = 20\<rparr>) None None = Inr M"
    using SquareLattice_init_default_dims by blast
  have g: "rows (cfg M) = 2" "cols (cfg M) = 1"
    using SquareLattice_init_fields(2,3) [OF M] by simp_all
  have s': "(rows (cfg M) = 1 \<and> 2 \<le> cols (cfg M)) \<or> (cols (cfg M) = 1 \<and> 2 \<le> rows (cfg M))"
    by (simp add: g)
  note t' = place_fails_on_single_row_or_column [OF M s', of "''resonator''" "[]" "(0, 0)" False 8 True "15 / 100"]
  have m2: "mirror_for_edge (cfg M) ((0, 0), (0 + 1, 0)) ''vertical'' ''resonator'' = Inl TypeError"
    using t' g
    by (intro conjunct1 [OF conjunct2 [OF conjunct2 [OF conjunct2 [OF t']]], rule_format]) simp_all
  have two: "cols (cfg M) = 1 \<and> 2 \<le> rows (cfg M)
        \<and> edge_positions M \<noteq> []
        \<and> mirror_for_edge (cfg M) ((0, 0), (1, 0)) ''vertical'' ''resonator'' = Inl TypeError
        \<and> place M [] (0, 0) False 8 (Some ''checkerboard'') ''resonator'' True (15 / 100)
            = Inl TypeError"
    using t' g m2 by simp
  from L one M two show ?thesis
    by blast
qed


section \<open>Degenerate tangents\<close>



















end
